theory Spec2Isabelle
  imports
    Complex_Main
    "HOL-Library.Char_ord"
    "HOL-Library.List_Lexorder"
    "HOL-Library.Option_ord"
begin

section \<open>The tables of \<open>yakit_takip.db\<close>\<close>

text \<open>
  The five tables of \<open>create_tables\<close>, one record per row and one list per table (rows in
  insertion order). A column that may hold NULL is an \<open>option\<close>. SQLite's REAL and
  Python's float are idealised as \<open>real\<close>: rounding, infinities and NaN are outside
  this development. Columns filled by \<open>CURRENT_TIMESTAMP\<close> or \<open>datetime('now')\<close> take the
  clock reading \<open>simdi\<close> that every writing operation receives as an argument.
\<close>

record arac_satiri =
  a_arac_id :: int
  a_plaka :: string
  a_model :: string
  a_mevcut_km :: int
  a_model_yili :: "int option"
  a_muayene_tarihi :: "string option"
  a_bakim_tarihi :: "string option"
  a_arac_surucusu :: "string option"
  a_eklenme_tarihi :: string

record yakit_satiri =
  y_kayit_id :: int
  y_arac_id :: int
  y_km :: int
  y_yakit_miktari :: real
  y_notlar :: "string option"
  y_tarih :: string
  y_eklenme_tarihi :: string

record dolum_satiri =
  d_dolum_id :: int
  d_miktar :: real
  d_birim_fiyat :: "real option"
  d_toplam_tutar :: "real option"
  d_notlar :: "string option"
  d_tarih :: string
  d_eklenme_tarihi :: string

record depo_satiri =
  depo_id :: int
  mevcut_yakit :: real
  son_guncelleme :: string

record bakim_satiri =
  b_kayit_id :: int
  b_arac_id :: int
  b_tarih :: string
  b_saat :: "string option"
  b_tespit_edilen_ariza :: "string option"
  b_yapilan_islem :: "string option"
  b_parca_ucreti :: real
  b_iscilik_ucreti :: real
  b_toplam_tutar :: real
  b_notlar :: "string option"
  b_eklenme_tarihi :: string

text \<open>
  \<open>araclar_seq\<close> and \<open>yakit_seq\<close> are the rows of \<open>sqlite_sequence\<close> that AUTOINCREMENT
  keeps for the two tables this development inserts into.
\<close>

record veritabani =
  araclar :: "arac_satiri list"
  yakit_kayitlari :: "yakit_satiri list"
  depo_dolumlari :: "dolum_satiri list"
  depo :: "depo_satiri list"
  bakim_tamirat :: "bakim_satiri list"
  araclar_seq :: int
  yakit_seq :: int

text \<open>
  \<open>self.conn\<close>: the committed database and the one the cursor reads and writes.
  \<open>commit\<close> makes the pending writes durable, \<open>rollback\<close> discards them.
\<close>

record conn =
  kalici :: veritabani
  calisan :: veritabani

definition commit :: "conn \<Rightarrow> conn" where
  "commit c = c\<lparr>kalici := calisan c\<rparr>"

definition rollback :: "conn \<Rightarrow> conn" where
  "rollback c = c\<lparr>calisan := kalici c\<rparr>"

definition execute :: "(veritabani \<Rightarrow> veritabani) \<Rightarrow> conn \<Rightarrow> conn" where
  "execute f c = c\<lparr>calisan := f (calisan c)\<rparr>"

section \<open>Messages and form values\<close>

text \<open>
  One constructor per \<open>show_error\<close> message of the operations below; \<open>Iptal\<close> is the
  silent return after the user answers no to \<open>askyesno\<close>.
\<close>

datatype hata =
    Zorunlu_Alan
  | Gecersiz_Deger
  | Plaka_Kayitli
  | Arac_Bulunamadi
  | Kayit_Bulunamadi
  | Secim_Yok
  | Istisna
  | Iptal

text \<open>
  The text of a combobox. The comboboxes are filled with \<open>"Tum Araclar"\<close> and with
  \<open>f"{plaka} (ID:{arac_id})"\<close>; \<open>int(arac.split("ID:")[1].rstrip(")"))\<close> gives the
  identifier back, raises IndexError when the text has no \<open>ID:\<close> (\<open>ID_Yok\<close>) and
  ValueError when what follows is no integer (\<open>ID_Bozuk\<close>).
\<close>

datatype secim = Secim_Bos | Tum_Araclar | Arac_Secimi int | ID_Yok | ID_Bozuk

text \<open>
  An entry field read through \<open>int\<close>, \<open>float\<close> or \<open>datetime.strptime\<close>: empty,
  rejected by the conversion (ValueError), or accepted with the value it denotes.
\<close>

datatype 'a alan = Bos | Reddedildi | Kabul 'a

section \<open>SQL aggregates\<close>

text \<open>MIN, MAX and SUM over the rows of a group: NULL (\<open>None\<close>) when there is no row.\<close>

definition sql_min :: "int list \<Rightarrow> int option" where
  "sql_min xs = (case xs of [] \<Rightarrow> None | x # r \<Rightarrow> Some (fold min r x))"

definition sql_max :: "int list \<Rightarrow> int option" where
  "sql_max xs = (case xs of [] \<Rightarrow> None | x # r \<Rightarrow> Some (fold max r x))"

definition sql_sum :: "real list \<Rightarrow> real option" where
  "sql_sum xs = (case xs of [] \<Rightarrow> None | x # r \<Rightarrow> Some (sum_list (x # r)))"

text \<open>
  \<open>GROUP BY key ... ORDER BY key\<close>: one group per distinct key, groups in ascending key
  order with the NULL key first, every group holding its rows in table order.
\<close>

definition sql_group_by :: "('r \<Rightarrow> 'k::linorder) \<Rightarrow> 'r list \<Rightarrow> ('k \<times> 'r list) list" where
  "sql_group_by key rows =
     map (\<lambda>k. (k, filter (\<lambda>r. key r = k) rows)) (sort (remdups (map key rows)))"

section \<open>Consumption statistics\<close>

text \<open>What one of the three statistics labels shows.\<close>

datatype etiket = Tire | Veri_Yok | KM_Hatasi | Deger real

record etiketler =
  ortalama_tuketim_label :: etiket
  aylik_ortalama_label :: etiket
  yillik_ortalama_label :: etiket

text \<open>
  \<open>SELECT MIN(km), MAX(km), SUM(yakit_miktari) FROM yakit_kayitlari WHERE arac_id = ?\<close>
  and the label computed from its single result row.
\<close>

definition arac_kayitlari :: "veritabani \<Rightarrow> int \<Rightarrow> yakit_satiri list" where
  "arac_kayitlari db i = filter (\<lambda>y. y_arac_id y = i) (yakit_kayitlari db)"

definition genel_ortalama :: "yakit_satiri list \<Rightarrow> etiket" where
  "genel_ortalama rows =
     (case (sql_min (map y_km rows), sql_max (map y_km rows),
            sql_sum (map y_yakit_miktari rows)) of
        (Some min_km, Some max_km, Some toplam_yakit) \<Rightarrow>
          (let toplam_km = max_km - min_km
           in if toplam_km > 0 then Deger ((toplam_yakit / real_of_int toplam_km) * 100)
              else KM_Hatasi)
      | _ \<Rightarrow> Veri_Yok)"

text \<open>
  The grouped queries: one result row \<open>(key, bas_km, son_km, yakit)\<close> per group that
  passes \<open>HAVING son_km > bas_km AND COUNT(*) > 1\<close>. The key is
  \<open>strftime('%m-%Y', tarih)\<close> for the months and \<open>strftime('%Y', tarih)\<close> for the years;
  the function that computes it from the stored text is the parameter \<open>anahtar\<close>.
\<close>

definition grup_satiri ::
  "'k \<times> yakit_satiri list \<Rightarrow> ('k \<times> int \<times> int \<times> real) option" where
  "grup_satiri g =
     (case (sql_min (map y_km (snd g)), sql_max (map y_km (snd g)),
            sql_sum (map y_yakit_miktari (snd g))) of
        (Some bas_km, Some son_km, Some yakit) \<Rightarrow>
          (if son_km > bas_km \<and> length (snd g) > 1 then Some (fst g, bas_km, son_km, yakit)
           else None)
      | _ \<Rightarrow> None)"

definition donem_verileri ::
  "(string \<Rightarrow> string option) \<Rightarrow> yakit_satiri list
     \<Rightarrow> (string option \<times> int \<times> int \<times> real) list" where
  "donem_verileri anahtar rows =
     List.map_filter grup_satiri (sql_group_by (\<lambda>y. anahtar (y_tarih y)) rows)"

definition donem_orani :: "string option \<times> int \<times> int \<times> real \<Rightarrow> real" where
  "donem_orani v = (case v of (ay, bas_km, son_km, yakit) \<Rightarrow>
     yakit / real_of_int (son_km - bas_km) * 100)"

definition donem_ortalamasi :: "(string option \<times> int \<times> int \<times> real) list \<Rightarrow> etiket" where
  "donem_ortalamasi veriler =
     (if veriler \<noteq> [] then Deger (sum_list (map donem_orani veriler) / real (length veriler))
      else Veri_Yok)"

text \<open>
  \<open>yakit_istatistiklerini_hesapla\<close>: the report combobox, the cursor and the three labels
  go in, the message shown (if any) and the labels come out. The only statement
  that can raise is the conversion of the combobox text; it runs before any label is set.
\<close>

definition yakit_istatistiklerini_hesapla ::
  "(string \<Rightarrow> string option) \<Rightarrow> (string \<Rightarrow> string option) \<Rightarrow> conn \<Rightarrow> secim \<Rightarrow> etiketler
     \<Rightarrow> hata option \<times> etiketler" where
  "yakit_istatistiklerini_hesapla strftime_ay strftime_yil c arac e =
     (case arac of
        Secim_Bos \<Rightarrow> (None, \<lparr>ortalama_tuketim_label = Tire, aylik_ortalama_label = Tire,
                             yillik_ortalama_label = Tire\<rparr>)
      | Tum_Araclar \<Rightarrow> (None, \<lparr>ortalama_tuketim_label = Tire, aylik_ortalama_label = Tire,
                               yillik_ortalama_label = Tire\<rparr>)
      | ID_Yok \<Rightarrow> (Some Istisna, e)
      | ID_Bozuk \<Rightarrow> (Some Istisna, e)
      | Arac_Secimi arac_id \<Rightarrow>
          (let rows = arac_kayitlari (calisan c) arac_id
           in (None,
               \<lparr>ortalama_tuketim_label = genel_ortalama rows,
                aylik_ortalama_label = donem_ortalamasi (donem_verileri strftime_ay rows),
                yillik_ortalama_label = donem_ortalamasi (donem_verileri strftime_yil rows)\<rparr>)))"

section \<open>SQLite's \<open>strftime\<close> on the stored timestamps\<close>

text \<open>
  SQLite reads a time value that starts with a date only as \<open>YYYY-MM-DD\<close>, alone or
  followed by a time of day, and \<open>strftime\<close> answers NULL for a text it cannot read.
  \<open>sqlite_tarih\<close> covers the texts \<open>YYYY-MM-DD\<close> and \<open>YYYY-MM-DD HH:MM\<close> with month
  01 to 12, day 01 to 28, hour 00 to 23 and minute 00 to 59, on which \<open>strftime\<close>
  returns the year and month as written, and answers NULL for every other text. It is
  used at concrete timestamps only: those of the shapes above, and those that SQLite
  rejects because they do not begin with four digits and a dash. The general
  theorems take the key functions as parameters and hold whatever \<open>strftime\<close> computes.
\<close>

definition rakam :: "char \<Rightarrow> bool" where
  "rakam ch = (48 \<le> (of_char ch :: nat) \<and> (of_char ch :: nat) \<le> 57)"

definition iki_hane :: "char \<Rightarrow> char \<Rightarrow> nat option" where
  "iki_hane a b =
     (if rakam a \<and> rakam b then Some ((of_char a - 48) * 10 + (of_char b - 48)) else None)"

definition aralikta :: "nat \<Rightarrow> nat \<Rightarrow> nat option \<Rightarrow> bool" where
  "aralikta lo hi v = (case v of None \<Rightarrow> False | Some n \<Rightarrow> lo \<le> n \<and> n \<le> hi)"

fun saat_dakika :: "string \<Rightarrow> bool" where
  "saat_dakika [] = True"
| "saat_dakika [b, h1, h2, ayrac, d1, d2] =
     (b = CHR '' '' \<and> ayrac = CHR '':'' \<and> aralikta 0 23 (iki_hane h1 h2)
      \<and> aralikta 0 59 (iki_hane d1 d2))"
| "saat_dakika _ = False"

definition sqlite_tarih :: "string \<Rightarrow> (string \<times> string) option" where
  "sqlite_tarih s =
     (if 10 \<le> length s \<and> list_all rakam (take 4 s) \<and> s ! 4 = CHR ''-''
         \<and> aralikta 1 12 (iki_hane (s ! 5) (s ! 6)) \<and> s ! 7 = CHR ''-''
         \<and> aralikta 1 28 (iki_hane (s ! 8) (s ! 9)) \<and> saat_dakika (drop 10 s)
      then Some (take 4 s, take 2 (drop 5 s)) else None)"

definition sqlite_strftime_ay :: "string \<Rightarrow> string option" where
  "sqlite_strftime_ay s =
     (case sqlite_tarih s of None \<Rightarrow> None | Some (yil, ay) \<Rightarrow> Some (ay @ ''-'' @ yil))"

definition sqlite_strftime_yil :: "string \<Rightarrow> string option" where
  "sqlite_strftime_yil s =
     (case sqlite_tarih s of None \<Rightarrow> None | Some (yil, ay) \<Rightarrow> Some yil)"

section \<open>Vehicles\<close>

text \<open>
  AUTOINCREMENT: the new rowid is one more than the largest rowid the table has ever held.
\<close>

definition sonraki_id :: "int \<Rightarrow> int list \<Rightarrow> int" where
  "sonraki_id seq ids = fold max ids seq + 1"

text \<open>
  The entry fields of the vehicle form as \<open>arac_ekle\<close> reads them: \<open>plaka_entry\<close> is
  the text after \<open>strip().upper()\<close>, the others after \<open>strip()\<close>.
\<close>

record arac_formu =
  plaka_entry :: string
  model_entry :: string
  km_entry :: "int alan"
  model_yili_entry :: "int alan"
  muayene_tarihi_entry :: string
  bakim_tarihi_entry :: string
  arac_surucusu_entry :: string

text \<open>
  \<open>INSERT INTO araclar\<close>: \<open>plaka TEXT UNIQUE\<close> raises IntegrityError when a row already
  has the plate.
\<close>

definition araclar_insert ::
  "string \<Rightarrow> string \<Rightarrow> int \<Rightarrow> int option \<Rightarrow> string \<Rightarrow> string \<Rightarrow> string \<Rightarrow> string
     \<Rightarrow> veritabani \<Rightarrow> veritabani option" where
  "araclar_insert plaka model km model_yili muayene bakim surucu simdi db =
     (if list_ex (\<lambda>a. a_plaka a = plaka) (araclar db) then None
      else
        (let yeni = sonraki_id (araclar_seq db) (map a_arac_id (araclar db))
         in Some (db\<lparr>araclar := araclar db @
                      [\<lparr>a_arac_id = yeni, a_plaka = plaka, a_model = model, a_mevcut_km = km,
                        a_model_yili = model_yili, a_muayene_tarihi = Some muayene,
                        a_bakim_tarihi = Some bakim, a_arac_surucusu = Some surucu,
                        a_eklenme_tarihi = simdi\<rparr>],
                    araclar_seq := yeni\<rparr>)))"

definition arac_ekle :: "conn \<Rightarrow> arac_formu \<Rightarrow> string \<Rightarrow> (hata + unit) \<times> conn" where
  "arac_ekle c f simdi =
     (if plaka_entry f = [] \<or> model_entry f = [] \<or> km_entry f = Bos
      then (Inl Zorunlu_Alan, c)
      else
        (case km_entry f of
           Bos \<Rightarrow> (Inl Zorunlu_Alan, c)
         | Reddedildi \<Rightarrow> (Inl Gecersiz_Deger, c)
         | Kabul km \<Rightarrow>
             (if km < 0 then (Inl Gecersiz_Deger, c)
              else
                (case model_yili_entry f of
                   Reddedildi \<Rightarrow> (Inl Gecersiz_Deger, c)
                 | yil \<Rightarrow>
                     (case araclar_insert (plaka_entry f) (model_entry f) km
                             (case yil of Kabul n \<Rightarrow> Some n | _ \<Rightarrow> None)
                             (muayene_tarihi_entry f) (bakim_tarihi_entry f)
                             (arac_surucusu_entry f) simdi (calisan c) of
                        None \<Rightarrow> (Inl Plaka_Kayitli, c)
                      | Some db \<Rightarrow> (Inr (), commit (c\<lparr>calisan := db\<rparr>)))))))"

text \<open>\<open>SELECT arac_id FROM araclar WHERE plaka = ?\<close> and \<open>fetchone\<close>.\<close>

definition arac_id_bul :: "veritabani \<Rightarrow> string \<Rightarrow> int option" where
  "arac_id_bul db plaka = map_option a_arac_id (find (\<lambda>a. a_plaka a = plaka) (araclar db))"

text \<open>
  \<open>arac_sil\<close>: \<open>secili\<close> is the plate of the selected row of the vehicle list (if any),
  \<open>onay\<close> the answer to \<open>askyesno\<close>.
\<close>

definition arac_sil :: "conn \<Rightarrow> string option \<Rightarrow> bool \<Rightarrow> (hata + unit) \<times> conn" where
  "arac_sil c secili onay =
     (case secili of
        None \<Rightarrow> (Inl Secim_Yok, c)
      | Some plaka \<Rightarrow>
          (if \<not> onay then (Inl Iptal, c)
           else
             (case arac_id_bul (calisan c) plaka of
                None \<Rightarrow> (Inl Arac_Bulunamadi, c)
              | Some arac_id \<Rightarrow>
                  (Inr (),
                   commit
                     (execute (\<lambda>db. db\<lparr>araclar := filter (\<lambda>a. a_arac_id a \<noteq> arac_id) (araclar db)\<rparr>)
                     (execute (\<lambda>db. db\<lparr>bakim_tamirat :=
                                  filter (\<lambda>b. b_arac_id b \<noteq> arac_id) (bakim_tamirat db)\<rparr>)
                     (execute (\<lambda>db. db\<lparr>yakit_kayitlari :=
                                  filter (\<lambda>y. y_arac_id y \<noteq> arac_id) (yakit_kayitlari db)\<rparr>)
                        c)))))))"

section \<open>Fuel entries\<close>

record yakit_formu =
  yakit_arac_combobox :: secim
  yakit_km_entry :: "int alan"
  yakit_miktar_entry :: "real alan"
  yakit_tarih_entry :: "string alan"
  yakit_not_entry :: string

text \<open>\<open>UPDATE depo SET mevcut_yakit = mevcut_yakit + ?, son_guncelleme = datetime('now')
  WHERE depo_id = 1\<close>; the fuel entry passes the negated volume.\<close>

definition depo_guncelle :: "real \<Rightarrow> string \<Rightarrow> veritabani \<Rightarrow> veritabani" where
  "depo_guncelle fark simdi db =
     db\<lparr>depo := map (\<lambda>d. if depo_id d = 1
                           then d\<lparr>mevcut_yakit := mevcut_yakit d + fark, son_guncelleme := simdi\<rparr>
                           else d) (depo db)\<rparr>"

text \<open>\<open>SELECT mevcut_yakit FROM depo WHERE depo_id = 1\<close> and \<open>fetchone\<close>.\<close>

definition depo_seviyesi :: "veritabani \<Rightarrow> real option" where
  "depo_seviyesi db = map_option mevcut_yakit (find (\<lambda>d. depo_id d = 1) (depo db))"

definition yakit_insert ::
  "int \<Rightarrow> int \<Rightarrow> real \<Rightarrow> string \<Rightarrow> string \<Rightarrow> string \<Rightarrow> veritabani \<Rightarrow> veritabani" where
  "yakit_insert arac_id km miktar notlar tarih simdi db =
     (let yeni = sonraki_id (yakit_seq db) (map y_kayit_id (yakit_kayitlari db))
      in db\<lparr>yakit_kayitlari := yakit_kayitlari db @
               [\<lparr>y_kayit_id = yeni, y_arac_id = arac_id, y_km = km, y_yakit_miktari = miktar,
                 y_notlar = Some notlar, y_tarih = tarih, y_eklenme_tarihi = simdi\<rparr>],
             yakit_seq := yeni\<rparr>)"

definition km_guncelle :: "int \<Rightarrow> int \<Rightarrow> veritabani \<Rightarrow> veritabani" where
  "km_guncelle km arac_id db =
     db\<lparr>araclar := map (\<lambda>a. if a_arac_id a = arac_id then a\<lparr>a_mevcut_km := km\<rparr> else a)
                      (araclar db)\<rparr>"

definition yakit_ekle :: "conn \<Rightarrow> yakit_formu \<Rightarrow> string \<Rightarrow> (hata + unit) \<times> conn" where
  "yakit_ekle c f simdi =
     (if yakit_arac_combobox f = Secim_Bos \<or> yakit_km_entry f = Bos
         \<or> yakit_miktar_entry f = Bos \<or> yakit_tarih_entry f = Bos
      then (Inl Zorunlu_Alan, c)
      else
        (case yakit_arac_combobox f of
           ID_Bozuk \<Rightarrow> (Inl Gecersiz_Deger, c)
         | Arac_Secimi arac_id \<Rightarrow>
             (case (yakit_km_entry f, yakit_miktar_entry f) of
                (Kabul km, Kabul miktar) \<Rightarrow>
                  (if km < 0 \<or> miktar \<le> 0 then (Inl Gecersiz_Deger, c)
                   else
                     (case yakit_tarih_entry f of
                        Kabul tarih \<Rightarrow>
                          (Inr (),
                           commit
                             (execute (depo_guncelle (- miktar) simdi)
                             (execute (km_guncelle km arac_id)
                             (execute (yakit_insert arac_id km miktar (yakit_not_entry f)
                                         tarih simdi) c))))
                      | _ \<Rightarrow> (Inl Gecersiz_Deger, c)))
              | _ \<Rightarrow> (Inl Gecersiz_Deger, c))
         | _ \<Rightarrow> (Inl Istisna, rollback c)))"

text \<open>The values of a row of the fuel list, as \<open>yakit_kayitlarini_yukle\<close> puts them there.\<close>

record yakit_tree_satiri =
  t_tarih :: string
  t_plaka :: string
  t_km :: int
  t_miktar :: real
  t_notlar :: "string option"

definition yakit_kaydi_sil ::
  "conn \<Rightarrow> yakit_tree_satiri option \<Rightarrow> bool \<Rightarrow> string \<Rightarrow> (hata + unit) \<times> conn" where
  "yakit_kaydi_sil c secili onay simdi =
     (case secili of
        None \<Rightarrow> (Inl Secim_Yok, c)
      | Some kayit \<Rightarrow>
          (if \<not> onay then (Inl Iptal, c)
           else
             (case arac_id_bul (calisan c) (t_plaka kayit) of
                None \<Rightarrow> (Inl Arac_Bulunamadi, c)
              | Some arac_id \<Rightarrow>
                  (Inr (),
                   commit
                     (execute (depo_guncelle (t_miktar kayit) simdi)
                     (execute (\<lambda>db. db\<lparr>yakit_kayitlari :=
                                  filter (\<lambda>y. \<not> (y_arac_id y = arac_id \<and> y_tarih y = t_tarih kayit
                                                   \<and> y_km y = t_km kayit))
                                         (yakit_kayitlari db)\<rparr>)
                        c))))))"

section \<open>Maintenance records\<close>

text \<open>The values of a row of the maintenance list: date, fault, work done, total.\<close>

record bakim_tree_satiri =
  bt_tarih :: string
  bt_ariza :: string
  bt_islem :: "string option"
  bt_tutar :: real

definition bakim_eslesir :: "int \<Rightarrow> string \<Rightarrow> string \<Rightarrow> bakim_satiri \<Rightarrow> bool" where
  "bakim_eslesir arac_id tarih ariza b =
     (b_arac_id b = arac_id \<and> b_tarih b = tarih \<and> b_tespit_edilen_ariza b = Some ariza)"

text \<open>
  \<open>bakim_kaydi_duzenle\<close>: on success the result carries the record whose fields were
  copied into the entry form.
\<close>

definition bakim_kaydi_duzenle ::
  "conn \<Rightarrow> bakim_tree_satiri option \<Rightarrow> secim \<Rightarrow> (hata + bakim_satiri) \<times> conn" where
  "bakim_kaydi_duzenle c secili arac =
     (case secili of
        None \<Rightarrow> (Inl Secim_Yok, c)
      | Some kayit \<Rightarrow>
          (case arac of
             Arac_Secimi arac_id \<Rightarrow>
               (case find (bakim_eslesir arac_id (bt_tarih kayit) (bt_ariza kayit))
                       (bakim_tamirat (calisan c)) of
                  None \<Rightarrow> (Inl Kayit_Bulunamadi, c)
                | Some kayit_detay \<Rightarrow>
                    (Inr kayit_detay,
                     commit
                       (execute (\<lambda>db. db\<lparr>bakim_tamirat :=
                                    filter (\<lambda>b. \<not> bakim_eslesir arac_id (bt_tarih kayit)
                                                      (bt_ariza kayit) b)
                                           (bakim_tamirat db)\<rparr>)
                          c)))
           | _ \<Rightarrow> (Inl Istisna, rollback c)))"

section \<open>Example databases\<close>

text \<open>
  Concrete states for the closed theorems below. \<open>yakit_tablosu\<close> holds one vehicle
  with identifier 1 and a fuel table given row by row; \<open>tek_arac\<close> and \<open>iki_ay\<close> are
  reached from the empty database through \<open>arac_ekle\<close> and \<open>yakit_ekle\<close>; \<open>filo\<close>
  holds two vehicles with fuel and maintenance rows.
\<close>

definition e0 :: etiketler where
  "e0 = \<lparr>ortalama_tuketim_label = Tire, aylik_ortalama_label = Tire,
          yillik_ortalama_label = Tire\<rparr>"

definition yakit_satiri_yap :: "int \<Rightarrow> int \<Rightarrow> int \<Rightarrow> real \<Rightarrow> string \<Rightarrow> yakit_satiri" where
  "yakit_satiri_yap k a km miktar tarih =
     \<lparr>y_kayit_id = k, y_arac_id = a, y_km = km, y_yakit_miktari = miktar, y_notlar = Some [],
      y_tarih = tarih, y_eklenme_tarihi = ''2023-03-01 00:00:00''\<rparr>"

definition yakit_tablosu :: "yakit_satiri list \<Rightarrow> conn" where
  "yakit_tablosu rows =
     (let db = \<lparr>araclar = [\<lparr>a_arac_id = 1, a_plaka = ''06ABC123'', a_model = ''Transit'',
                   a_mevcut_km = 0, a_model_yili = None, a_muayene_tarihi = None,
                   a_bakim_tarihi = None, a_arac_surucusu = None,
                   a_eklenme_tarihi = ''2023-01-01 00:00:00''\<rparr>],
                 yakit_kayitlari = rows, depo_dolumlari = [],
                 depo = [\<lparr>depo_id = 1, mevcut_yakit = 0,
                          son_guncelleme = ''2023-01-01 00:00:00''\<rparr>],
                 bakim_tamirat = [], araclar_seq = 1, yakit_seq = int (length rows)\<rparr>
      in \<lparr>kalici = db, calisan = db\<rparr>)"



definition tek_kayit :: conn where
  "tek_kayit = yakit_tablosu [yakit_satiri_yap 1 1 1000 30 ''10-01-2023 08:00'']"


definition bos_db :: veritabani where
  "bos_db = \<lparr>araclar = [], yakit_kayitlari = [], depo_dolumlari = [],
     depo = [\<lparr>depo_id = 1, mevcut_yakit = 0, son_guncelleme = ''2023-01-01 00:00:00''\<rparr>],
     bakim_tamirat = [], araclar_seq = 0, yakit_seq = 0\<rparr>"

definition bos_conn :: conn where
  "bos_conn = \<lparr>kalici = bos_db, calisan = bos_db\<rparr>"

definition ornek_arac_formu :: arac_formu where
  "ornek_arac_formu = \<lparr>plaka_entry = ''06ABC123'', model_entry = ''Transit'',
     km_entry = Kabul 1000, model_yili_entry = Bos, muayene_tarihi_entry = [],
     bakim_tarihi_entry = [], arac_surucusu_entry = []\<rparr>"

definition yakit_formu_yap :: "int \<Rightarrow> real \<Rightarrow> string \<Rightarrow> yakit_formu" where
  "yakit_formu_yap km miktar tarih = \<lparr>yakit_arac_combobox = Arac_Secimi 1,
     yakit_km_entry = Kabul km, yakit_miktar_entry = Kabul miktar,
     yakit_tarih_entry = Kabul tarih, yakit_not_entry = []\<rparr>"

definition tek_arac :: conn where
  "tek_arac = snd (arac_ekle bos_conn ornek_arac_formu ''2023-01-01 00:00:00'')"

definition iki_ay :: conn where
  "iki_ay =
     snd (yakit_ekle (snd (yakit_ekle (snd (yakit_ekle (snd (yakit_ekle tek_arac
       (yakit_formu_yap 1000 4 ''10-01-2023 08:00'') ''2023-01-10 05:00:00''))
       (yakit_formu_yap 1200 6 ''20-01-2023 08:00'') ''2023-01-20 05:00:00''))
       (yakit_formu_yap 2000 6 ''10-02-2023 08:00'') ''2023-02-10 05:00:00''))
       (yakit_formu_yap 2200 8 ''20-02-2023 08:00'') ''2023-02-20 05:00:00'')"

definition iki_ay_iso :: conn where
  "iki_ay_iso = yakit_tablosu
     [yakit_satiri_yap 1 1 1000 4 ''2023-01-10 08:00'',
      yakit_satiri_yap 2 1 1200 6 ''2023-01-20 08:00'',
      yakit_satiri_yap 3 1 2000 6 ''2023-02-10 08:00'',
      yakit_satiri_yap 4 1 2200 8 ''2023-02-20 08:00'']"

definition silinecek_kayit :: yakit_tree_satiri where
  "silinecek_kayit = \<lparr>t_tarih = ''15-03-2023 09:30'', t_plaka = ''06ABC123'', t_km = 500,
     t_miktar = 10, t_notlar = Some []\<rparr>"

definition bakim_satiri_yap :: "int \<Rightarrow> int \<Rightarrow> string \<Rightarrow> string \<Rightarrow> string \<Rightarrow> bakim_satiri" where
  "bakim_satiri_yap k a tarih ariza islem =
     \<lparr>b_kayit_id = k, b_arac_id = a, b_tarih = tarih, b_saat = Some ''10:00'',
      b_tespit_edilen_ariza = Some ariza, b_yapilan_islem = Some islem, b_parca_ucreti = 100,
      b_iscilik_ucreti = 50, b_toplam_tutar = 150, b_notlar = Some [],
      b_eklenme_tarihi = ''2023-03-01 00:00:00''\<rparr>"

definition arac_satiri_yap :: "int \<Rightarrow> string \<Rightarrow> arac_satiri" where
  "arac_satiri_yap k p =
     \<lparr>a_arac_id = k, a_plaka = p, a_model = ''Transit'', a_mevcut_km = 0, a_model_yili = None,
      a_muayene_tarihi = None, a_bakim_tarihi = None, a_arac_surucusu = None,
      a_eklenme_tarihi = ''2023-01-01 00:00:00''\<rparr>"

definition filo_db :: veritabani where
  "filo_db =
     \<lparr>araclar = [arac_satiri_yap 1 ''06ABC123'', arac_satiri_yap 2 ''34XYZ99''],
      yakit_kayitlari =
        [yakit_satiri_yap 1 1 1000 30 ''10-01-2023 08:00'',
         yakit_satiri_yap 2 2 5000 40 ''11-01-2023 08:00'',
         yakit_satiri_yap 3 1 1800 32 ''20-01-2023 08:00''],
      depo_dolumlari = [],
      depo = [\<lparr>depo_id = 1, mevcut_yakit = 500, son_guncelleme = ''2023-01-20 05:00:00''\<rparr>],
      bakim_tamirat =
        [bakim_satiri_yap 1 1 ''05-02-2023'' ''fren'' ''balata degisimi'',
         bakim_satiri_yap 2 1 ''05-02-2023'' ''fren'' ''disk degisimi'',
         bakim_satiri_yap 3 2 ''05-02-2023'' ''fren'' ''balata degisimi'',
         bakim_satiri_yap 4 1 ''06-02-2023'' ''lastik'' ''lastik degisimi''],
      araclar_seq = 2, yakit_seq = 3\<rparr>"

definition filo :: conn where
  "filo = \<lparr>kalici = filo_db, calisan = filo_db\<rparr>"

definition secili_bakim :: bakim_tree_satiri where
  "secili_bakim = \<lparr>bt_tarih = ''05-02-2023'', bt_ariza = ''fren'',
     bt_islem = Some ''balata degisimi'', bt_tutar = 150\<rparr>"

section \<open>Aggregates and groups\<close>

lemma sql_min_Min: "xs \<noteq> [] \<Longrightarrow> sql_min xs = Some (Min (set xs))"
proof (cases xs)
  case (Cons x r)
  then show ?thesis using Min.set_eq_fold [of x r] by (simp add: sql_min_def)
qed simp

lemma sql_max_Max: "xs \<noteq> [] \<Longrightarrow> sql_max xs = Some (Max (set xs))"
proof (cases xs)
  case (Cons x r)
  then show ?thesis using Max.set_eq_fold [of x r] by (simp add: sql_max_def)
qed simp

lemma sql_sum_sum: "xs \<noteq> [] \<Longrightarrow> sql_sum xs = Some (sum_list xs)"
  by (cases xs) (simp_all add: sql_sum_def)

lemma genel_ortalama_eq:
  "rows \<noteq> [] \<Longrightarrow> genel_ortalama rows =
     (if Min (set (map y_km rows)) < Max (set (map y_km rows))
      then Deger (sum_list (map y_yakit_miktari rows)
                    / real_of_int (Max (set (map y_km rows)) - Min (set (map y_km rows))) * 100)
      else KM_Hatasi)"
  by (simp add: genel_ortalama_def sql_min_Min sql_max_Max sql_sum_sum Let_def)

lemma genel_ortalama_Nil: "genel_ortalama [] = Veri_Yok"
  by (simp add: genel_ortalama_def sql_min_def)

lemma grup_satiri_kisa: "length (snd g) < 2 \<Longrightarrow> grup_satiri g = None"
  by (auto simp: grup_satiri_def split: option.splits)

lemma donem_verileri_kisa:
  assumes "length rows < 2"
  shows "donem_verileri anahtar rows = []"
proof -
  have "length (filter P rows) < 2" for P
    using assms length_filter_le [of P rows] by linarith
  then have "\<forall>g \<in> set (sql_group_by (\<lambda>y. anahtar (y_tarih y)) rows). grup_satiri g = None"
    by (auto simp: sql_group_by_def intro!: grup_satiri_kisa)
  then show ?thesis
    by (simp add: donem_verileri_def List.map_filter_def filter_empty_conv)
qed




lemma hesapla_Arac_Secimi:
  "yakit_istatistiklerini_hesapla strftime_ay strftime_yil c (Arac_Secimi i) e =
     (None, \<lparr>ortalama_tuketim_label = genel_ortalama (arac_kayitlari (calisan c) i),
        aylik_ortalama_label =
          donem_ortalamasi (donem_verileri strftime_ay (arac_kayitlari (calisan c) i)),
        yillik_ortalama_label =
          donem_ortalamasi (donem_verileri strftime_yil (arac_kayitlari (calisan c) i))\<rparr>)"
  by (simp add: yakit_istatistiklerini_hesapla_def Let_def)

section \<open>Connection and depot\<close>

lemma calisan_commit [simp]: "calisan (commit c) = calisan c"
  by (simp add: commit_def)

lemma kalici_commit [simp]: "kalici (commit c) = calisan c"
  by (simp add: commit_def)

lemma calisan_execute [simp]: "calisan (execute f c) = f (calisan c)"
  by (simp add: execute_def)



lemma depo_seviyesi_km_guncelle [simp]:
  "depo_seviyesi (km_guncelle km i db) = depo_seviyesi db"
  by (simp add: depo_seviyesi_def km_guncelle_def)

lemma depo_seviyesi_yakit_insert [simp]:
  "depo_seviyesi (yakit_insert i km v n t s db) = depo_seviyesi db"
  by (simp add: depo_seviyesi_def yakit_insert_def Let_def)

lemma depo_seviyesi_yakit_kayitlari [simp]:
  "depo_seviyesi (db\<lparr>yakit_kayitlari := ys\<rparr>) = depo_seviyesi db"
  by (simp add: depo_seviyesi_def)

lemma find_km_guncelle:
  "find (\<lambda>a. a_plaka a = p)
     (map (\<lambda>a. if a_arac_id a = i then a\<lparr>a_mevcut_km := km\<rparr> else a) xs)
   = map_option (\<lambda>a. if a_arac_id a = i then a\<lparr>a_mevcut_km := km\<rparr> else a)
       (find (\<lambda>a. a_plaka a = p) xs)"
  by (induction xs) simp_all

lemma arac_id_bul_km_guncelle [simp]:
  "arac_id_bul (km_guncelle km i db) p = arac_id_bul db p"
  by (cases "find (\<lambda>a. a_plaka a = p) (araclar db)")
     (simp_all add: arac_id_bul_def km_guncelle_def find_km_guncelle)

lemma arac_id_bul_yakit_insert [simp]:
  "arac_id_bul (yakit_insert i km v n t s db) p = arac_id_bul db p"
  by (simp add: arac_id_bul_def yakit_insert_def Let_def)

lemma arac_id_bul_depo_guncelle [simp]:
  "arac_id_bul (depo_guncelle f s db) p = arac_id_bul db p"
  by (simp add: arac_id_bul_def depo_guncelle_def)




section \<open>The overall rate\<close>



section \<open>The monthly and yearly figures\<close>

text \<open>
  Claim C2: the monthly figure is the unweighted mean of the rates of the calendar months
  that hold at least two entries and a positive odometer span, so two months with rates
  5.0 and 7.0 give 6.0. The code stores every timestamp as \<open>yakit_ekle\<close> accepts it,
  day first (\<open>%d-%m-%Y %H:%M\<close>), and \<open>strftime('%m-%Y', tarih)\<close> answers NULL for
  such a text. In the state \<open>iki_ay\<close>, reached from the empty database by \<open>arac_ekle\<close>
  and four calls of \<open>yakit_ekle\<close>, January has the rate 5 and February the rate 7, all
  four rows share the NULL key, and the monthly label shows the rate 2 of that single
  partition.
\<close>

theorem aylik_ortalama_tek_grup:
  "map (\<lambda>y. (y_tarih y, y_km y, y_yakit_miktari y)) (arac_kayitlari (calisan iki_ay) 1)
     = [(''10-01-2023 08:00'', 1000, 4), (''20-01-2023 08:00'', 1200, 6),
        (''10-02-2023 08:00'', 2000, 6), (''20-02-2023 08:00'', 2200, 8)]
   \<and> map (\<lambda>y. sqlite_strftime_ay (y_tarih y)) (arac_kayitlari (calisan iki_ay) 1)
     = [None, None, None, None]
   \<and> donem_orani (Some ''01-2023'', 1000, 1200, 4 + 6) = 5
   \<and> donem_orani (Some ''02-2023'', 2000, 2200, 6 + 8) = 7
   \<and> aylik_ortalama_label
       (snd (yakit_istatistiklerini_hesapla sqlite_strftime_ay sqlite_strftime_yil iki_ay
          (Arac_Secimi 1) e0)) = Deger 2"
  by code_simp

text \<open>
  The same four rows with timestamps written year first are partitioned by month, and the
  monthly label shows 6.
\<close>

lemma aylik_ortalama_iso:
  "aylik_ortalama_label
     (snd (yakit_istatistiklerini_hesapla sqlite_strftime_ay sqlite_strftime_yil iki_ay_iso
        (Arac_Secimi 1) e0)) = Deger 6"
  by code_simp

section \<open>Fewer than two fuel entries\<close>

text \<open>
  Claim C3 says that a vehicle with fewer than two fuel entries shows "no data" in all
  three labels. With exactly one entry the overall label shows the odometer-error state
  instead: MIN(km) is not NULL and the span is zero.
\<close>

theorem tek_kayit_km_hatasi:
  "length (arac_kayitlari (calisan tek_kayit) 1) < 2
   \<and> ortalama_tuketim_label
       (snd (yakit_istatistiklerini_hesapla sqlite_strftime_ay sqlite_strftime_yil tek_kayit
          (Arac_Secimi 1) e0)) \<noteq> Veri_Yok"
  by code_simp

text \<open>
  Claim C3, as the code has it: with fewer than two fuel entries the monthly and the
  yearly label show "no data"; the overall label shows "no data" when the vehicle has no
  entry and the odometer-error state when it has exactly one.
\<close>

theorem ikiden_az_kayit:
  assumes "rows = arac_kayitlari (calisan c) i" and "length rows < 2"
  shows "snd (yakit_istatistiklerini_hesapla strftime_ay strftime_yil c (Arac_Secimi i) e)
         = \<lparr>ortalama_tuketim_label = (if rows = [] then Veri_Yok else KM_Hatasi),
            aylik_ortalama_label = Veri_Yok, yillik_ortalama_label = Veri_Yok\<rparr>"
proof -
  have "genel_ortalama rows = (if rows = [] then Veri_Yok else KM_Hatasi)"
  proof (cases rows)
    case Nil
    then show ?thesis by (simp add: genel_ortalama_Nil)
  next
    case (Cons y ys)
    with assms(2) have "ys = []" by simp
    with Cons show ?thesis by (simp add: genel_ortalama_eq)
  qed
  then show ?thesis
    using assms
    by (simp add: hesapla_Arac_Secimi donem_verileri_kisa donem_ortalamasi_def)
qed

theorem ikiden_az_kayit_witness:
  "snd (yakit_istatistiklerini_hesapla sqlite_strftime_ay sqlite_strftime_yil tek_kayit
          (Arac_Secimi 1) e0)
     = \<lparr>ortalama_tuketim_label = KM_Hatasi, aylik_ortalama_label = Veri_Yok,
        yillik_ortalama_label = Veri_Yok\<rparr>
   \<and> snd (yakit_istatistiklerini_hesapla sqlite_strftime_ay sqlite_strftime_yil tek_kayit
          (Arac_Secimi 2) e0)
     = \<lparr>ortalama_tuketim_label = Veri_Yok, aylik_ortalama_label = Veri_Yok,
        yillik_ortalama_label = Veri_Yok\<rparr>"
proof -
  have l1: "length (arac_kayitlari (calisan tek_kayit) 1) < 2" by code_simp
  have l2: "length (arac_kayitlari (calisan tek_kayit) 2) < 2" by code_simp
  have n1: "arac_kayitlari (calisan tek_kayit) 1 \<noteq> []" by code_simp
  have n2: "arac_kayitlari (calisan tek_kayit) 2 = []" by code_simp
  show ?thesis
    using ikiden_az_kayit [OF refl l1, of sqlite_strftime_ay sqlite_strftime_yil e0]
      ikiden_az_kayit [OF refl l2, of sqlite_strftime_ay sqlite_strftime_yil e0] n1 n2
    by simp
qed

section \<open>Timestamps that SQLite cannot read\<close>




section \<open>Fuel entries and the depot\<close>





text \<open>
  Claim C7. Deleting a fuel entry leaves the vehicle table as it is, and with it the
  recorded odometer: only the fuel table and the level of the depot row change.
\<close>

theorem yakit_kaydi_sil_cerceve:
  "araclar (calisan (snd (yakit_kaydi_sil c secili onay simdi))) = araclar (calisan c)
   \<and> bakim_tamirat (calisan (snd (yakit_kaydi_sil c secili onay simdi)))
       = bakim_tamirat (calisan c)
   \<and> depo_dolumlari (calisan (snd (yakit_kaydi_sil c secili onay simdi)))
       = depo_dolumlari (calisan c)
   \<and> map depo_id (depo (calisan (snd (yakit_kaydi_sil c secili onay simdi))))
       = map depo_id (depo (calisan c))
   \<and> araclar_seq (calisan (snd (yakit_kaydi_sil c secili onay simdi)))
       = araclar_seq (calisan c)
   \<and> yakit_seq (calisan (snd (yakit_kaydi_sil c secili onay simdi))) = yakit_seq (calisan c)"
  by (simp add: yakit_kaydi_sil_def depo_guncelle_def split: option.split)

theorem yakit_kaydi_sil_cerceve_witness:
  "map a_mevcut_km (araclar (calisan tek_arac)) = [1000]
   \<and> map a_mevcut_km (araclar (calisan (snd (yakit_kaydi_sil (snd (yakit_ekle tek_arac
        (yakit_formu_yap 500 10 ''15-03-2023 09:30'') ''2023-03-15 06:30:00''))
        (Some silinecek_kayit) True ''2023-03-16 06:30:00'')))) = [500]
   \<and> yakit_kayitlari (calisan (snd (yakit_kaydi_sil (snd (yakit_ekle tek_arac
        (yakit_formu_yap 500 10 ''15-03-2023 09:30'') ''2023-03-15 06:30:00''))
        (Some silinecek_kayit) True ''2023-03-16 06:30:00''))) = []"
proof -
  have a: "map a_mevcut_km (araclar (calisan tek_arac)) = [1000]" by code_simp
  have b: "map a_mevcut_km (araclar (calisan (snd (yakit_ekle tek_arac
        (yakit_formu_yap 500 10 ''15-03-2023 09:30'') ''2023-03-15 06:30:00'')))) = [500]"
    by code_simp
  have d: "yakit_kayitlari (calisan (snd (yakit_kaydi_sil (snd (yakit_ekle tek_arac
        (yakit_formu_yap 500 10 ''15-03-2023 09:30'') ''2023-03-15 06:30:00''))
        (Some silinecek_kayit) True ''2023-03-16 06:30:00''))) = []"
    by code_simp
  show ?thesis
    using yakit_kaydi_sil_cerceve [of "snd (yakit_ekle tek_arac
        (yakit_formu_yap 500 10 ''15-03-2023 09:30'') ''2023-03-15 06:30:00'')"
        "Some silinecek_kayit" True "''2023-03-16 06:30:00''"] a b d
    by simp
qed


section \<open>Vehicles\<close>



text \<open>
  Claim C9. Deleting a vehicle removes its row, its fuel rows and its maintenance rows, and
  commits: afterwards no row of the three tables carries its identifier, and the rows of
  the other vehicles are all kept.
\<close>

theorem arac_sil_kademeli:
  assumes "arac_id_bul (calisan c) plaka = Some i"
    and "c' = snd (arac_sil c (Some plaka) True)"
  shows "fst (arac_sil c (Some plaka) True) = Inr ()
     \<and> araclar (calisan c') = filter (\<lambda>a. a_arac_id a \<noteq> i) (araclar (calisan c))
     \<and> yakit_kayitlari (calisan c') = filter (\<lambda>y. y_arac_id y \<noteq> i) (yakit_kayitlari (calisan c))
     \<and> bakim_tamirat (calisan c') = filter (\<lambda>b. b_arac_id b \<noteq> i) (bakim_tamirat (calisan c))
     \<and> \<not> list_ex (\<lambda>a. a_arac_id a = i) (araclar (calisan c'))
     \<and> \<not> list_ex (\<lambda>y. y_arac_id y = i) (yakit_kayitlari (calisan c'))
     \<and> \<not> list_ex (\<lambda>b. b_arac_id b = i) (bakim_tamirat (calisan c'))
     \<and> kalici c' = calisan c'"
  using assms by (simp add: arac_sil_def list_ex_iff)

theorem arac_sil_kademeli_witness:
  "arac_id_bul (calisan filo) ''06ABC123'' = Some 1
   \<and> fst (arac_sil filo (Some ''06ABC123'') True) = Inr ()
   \<and> map a_arac_id (araclar (kalici (snd (arac_sil filo (Some ''06ABC123'') True)))) = [2]
   \<and> map y_arac_id (yakit_kayitlari (kalici (snd (arac_sil filo (Some ''06ABC123'') True))))
       = [2]
   \<and> map b_arac_id (bakim_tamirat (kalici (snd (arac_sil filo (Some ''06ABC123'') True))))
       = [2]"
proof -
  have h: "arac_id_bul (calisan filo) ''06ABC123'' = Some 1" by code_simp
  have a: "map a_arac_id (filter (\<lambda>a. a_arac_id a \<noteq> 1) (araclar (calisan filo))) = [2]"
    by code_simp
  have y: "map y_arac_id (filter (\<lambda>y. y_arac_id y \<noteq> 1) (yakit_kayitlari (calisan filo))) = [2]"
    by code_simp
  have b: "map b_arac_id (filter (\<lambda>b. b_arac_id b \<noteq> 1) (bakim_tamirat (calisan filo))) = [2]"
    by code_simp
  show ?thesis
    using arac_sil_kademeli [OF h refl] h a y b by simp
qed

section \<open>Editing a maintenance record\<close>

text \<open>
  Claim C10. \<open>bakim_kaydi_duzenle\<close> copies the first record matching the selected
  vehicle, date and fault into the form, then deletes every record with that vehicle, date
  and fault and commits; nothing is inserted, so the committed table has lost them.
\<close>

theorem bakim_kaydi_duzenle_siler:
  assumes "find (bakim_eslesir i (bt_tarih kayit) (bt_ariza kayit)) (bakim_tamirat (calisan c))
             = Some kayit_detay"
    and "c' = snd (bakim_kaydi_duzenle c (Some kayit) (Arac_Secimi i))"
  shows "fst (bakim_kaydi_duzenle c (Some kayit) (Arac_Secimi i)) = Inr kayit_detay
     \<and> bakim_tamirat (kalici c')
         = filter (\<lambda>b. \<not> bakim_eslesir i (bt_tarih kayit) (bt_ariza kayit) b)
             (bakim_tamirat (calisan c))
     \<and> \<not> list_ex (bakim_eslesir i (bt_tarih kayit) (bt_ariza kayit)) (bakim_tamirat (kalici c'))
     \<and> length (bakim_tamirat (kalici c')) < length (bakim_tamirat (calisan c))
     \<and> calisan c' = kalici c'"
proof -
  from assms(1) have "kayit_detay \<in> set (bakim_tamirat (calisan c))
      \<and> bakim_eslesir i (bt_tarih kayit) (bt_ariza kayit) kayit_detay"
    by (auto simp: find_Some_iff)
  then have "length (filter (\<lambda>b. \<not> bakim_eslesir i (bt_tarih kayit) (bt_ariza kayit) b)
             (bakim_tamirat (calisan c))) < length (bakim_tamirat (calisan c))"
    by (intro length_filter_less [of kayit_detay]) auto
  then show ?thesis
    using assms by (simp add: bakim_kaydi_duzenle_def list_ex_iff)
qed

theorem bakim_kaydi_duzenle_siler_witness:
  "map b_kayit_id (bakim_tamirat (kalici filo)) = [1, 2, 3, 4]
   \<and> map_sum id b_kayit_id (fst (bakim_kaydi_duzenle filo (Some secili_bakim) (Arac_Secimi 1)))
       = Inr 1
   \<and> map b_kayit_id (bakim_tamirat (kalici (snd (bakim_kaydi_duzenle filo (Some secili_bakim)
        (Arac_Secimi 1))))) = [3, 4]"
proof -
  have h: "find (bakim_eslesir 1 (bt_tarih secili_bakim) (bt_ariza secili_bakim))
             (bakim_tamirat (calisan filo))
           = Some (bakim_satiri_yap 1 1 ''05-02-2023'' ''fren'' ''balata degisimi'')"
    by code_simp
  have a: "map b_kayit_id (bakim_tamirat (kalici filo)) = [1, 2, 3, 4]" by code_simp
  have b: "map b_kayit_id (filter (\<lambda>b. \<not> bakim_eslesir 1 (bt_tarih secili_bakim)
             (bt_ariza secili_bakim) b) (bakim_tamirat (calisan filo))) = [3, 4]"
    by code_simp
  have k: "b_kayit_id (bakim_satiri_yap 1 1 ''05-02-2023'' ''fren'' ''balata degisimi'') = 1"
    by (simp add: bakim_satiri_yap_def)
  show ?thesis
    using bakim_kaydi_duzenle_siler [OF h refl] a b k by simp
qed

end
